theory Spec2Isabelle
  imports Main "HOL-Library.AList" "HOL-Library.Sublist" "HOL-Library.Char_ord"
    "HOL-Library.List_Lexorder" "HOL-Library.Multiset"
begin

section \<open>Python values and exceptions\<close>

text \<open>
  The program passes dictionaries of type \<open>Dict[str, Any]\<close> between its components: the
  values are whatever \<open>json.loads\<close> returned or what the code itself put there. They are
  modelled as JSON values; an object keeps its keys in insertion order, as a Python
  \<open>dict\<close> does. Numbers are integers (floats are not modelled). A string is a list of
  characters, one per code point; the case mappings below are those of the ASCII letters.
\<close>

datatype json =
    JNull
  | JBool bool
  | JInt int
  | JStr string
  | JList "json list"
  | JObj "(string \<times> json) list"

text \<open>An exception, with the text that \<open>str(e)\<close> gives.\<close>

datatype error =
    AttributeError string
  | TypeError string
  | KeyError string
  | NameError string
  | JSONDecodeError string
  | OSError string
  | LLMError string

fun error_str :: "error \<Rightarrow> string" where
  "error_str (AttributeError m) = m"
| "error_str (TypeError m) = m"
| "error_str (KeyError m) = m"
| "error_str (NameError m) = m"
| "error_str (JSONDecodeError m) = m"
| "error_str (OSError m) = m"
| "error_str (LLMError m) = m"

definition and_then :: "error + 'a \<Rightarrow> ('a \<Rightarrow> error + 'b) \<Rightarrow> error + 'b" where
  "and_then m f = (case m of Inl e \<Rightarrow> Inl e | Inr x \<Rightarrow> f x)"

fun type_name :: "json \<Rightarrow> string" where
  "type_name JNull = ''NoneType''"
| "type_name (JBool b) = ''bool''"
| "type_name (JInt n) = ''int''"
| "type_name (JStr s) = ''str''"
| "type_name (JList xs) = ''list''"
| "type_name (JObj kvs) = ''dict''"

definition quoted :: "string \<Rightarrow> string" where
  "quoted s = CHR 0x27 # s @ [CHR 0x27]"

definition no_attribute :: "json \<Rightarrow> string \<Rightarrow> error" where
  "no_attribute v a =
     AttributeError (quoted (type_name v) @ '' object has no attribute '' @ quoted a)"

text \<open>\<open>d.get(k, default)\<close>: only a dictionary has the method.\<close>

fun py_get :: "json \<Rightarrow> string \<Rightarrow> json \<Rightarrow> error + json" where
  "py_get (JObj kvs) k d = Inr (case map_of kvs k of Some v \<Rightarrow> v | None \<Rightarrow> d)"
| "py_get v k d = Inl (no_attribute v ''get'')"

text \<open>\<open>xs[:n]\<close> on a sequence; a negative \<open>n\<close> counts from the end.\<close>

definition py_take :: "int \<Rightarrow> 'a list \<Rightarrow> 'a list" where
  "py_take n xs = (if 0 \<le> n then take (nat n) xs else take (length xs - nat (- n)) xs)"

fun py_slice_to :: "json \<Rightarrow> int \<Rightarrow> error + json" where
  "py_slice_to (JList xs) n = Inr (JList (py_take n xs))"
| "py_slice_to (JStr s) n = Inr (JStr (py_take n s))"
| "py_slice_to (JObj kvs) n = Inl (TypeError (''unhashable type: '' @ quoted ''slice''))"
| "py_slice_to v n = Inl (TypeError (quoted (type_name v) @ '' object is not subscriptable''))"

fun py_len :: "json \<Rightarrow> error + int" where
  "py_len (JList xs) = Inr (int (length xs))"
| "py_len (JStr s) = Inr (int (length s))"
| "py_len (JObj kvs) = Inr (int (length kvs))"
| "py_len v = Inl (TypeError (''object of type '' @ quoted (type_name v) @ '' has no len()''))"

text \<open>\<open>d[k]\<close> and \<open>d[k] = v\<close> on a value that should be a dictionary.\<close>

fun py_getitem :: "json \<Rightarrow> string \<Rightarrow> error + json" where
  "py_getitem (JObj kvs) k =
     (case map_of kvs k of Some v \<Rightarrow> Inr v | None \<Rightarrow> Inl (KeyError (quoted k)))"
| "py_getitem (JList xs) k = Inl (TypeError ''list indices must be integers or slices, not str'')"
| "py_getitem (JStr s) k = Inl (TypeError (''string indices must be integers, not '' @ quoted ''str''))"
| "py_getitem v k = Inl (TypeError (quoted (type_name v) @ '' object is not subscriptable''))"

fun py_setitem :: "json \<Rightarrow> string \<Rightarrow> json \<Rightarrow> error + json" where
  "py_setitem (JObj kvs) k v = Inr (JObj (AList.update k v kvs))"
| "py_setitem d k v =
     Inl (TypeError (quoted (type_name d) @ '' object does not support item assignment''))"

section \<open>String methods\<close>

definition upper_letters :: string where
  "upper_letters = ''ABCDEFGHIJKLMNOPQRSTUVWXYZ''"

definition lower_letters :: string where
  "lower_letters = ''abcdefghijklmnopqrstuvwxyz''"

definition lower_char :: "char \<Rightarrow> char" where
  "lower_char c = (case map_of (zip upper_letters lower_letters) c of Some d \<Rightarrow> d | None \<Rightarrow> c)"

definition upper_char :: "char \<Rightarrow> char" where
  "upper_char c = (case map_of (zip lower_letters upper_letters) c of Some d \<Rightarrow> d | None \<Rightarrow> c)"

definition is_letter :: "char \<Rightarrow> bool" where
  "is_letter c = (c \<in> set upper_letters \<or> c \<in> set lower_letters)"

text \<open>\<open>s.lower()\<close>\<close>

definition py_lower :: "string \<Rightarrow> string" where
  "py_lower s = map lower_char s"

text \<open>\<open>s.title()\<close>: a letter that follows a letter is lowered, any other letter is raised.\<close>

fun title_from :: "bool \<Rightarrow> string \<Rightarrow> string" where
  "title_from prev [] = []"
| "title_from prev (c # cs) =
     (if is_letter c then (if prev then lower_char c else upper_char c) # title_from True cs
      else c # title_from False cs)"

definition py_title :: "string \<Rightarrow> string" where
  "py_title s = title_from False s"

text \<open>The characters below code point 256 for which \<open>str.isspace\<close> holds.\<close>

definition py_isspace :: "char \<Rightarrow> bool" where
  "py_isspace c = (c \<in> set [CHR 0x09, CHR 0x0A, CHR 0x0B, CHR 0x0C, CHR 0x0D,
      CHR 0x1C, CHR 0x1D, CHR 0x1E, CHR 0x1F, CHR 0x20, CHR 0x85, CHR 0xA0])"

text \<open>\<open>s.split()\<close>: the maximal runs of characters that are not whitespace.\<close>

fun split_from :: "string \<Rightarrow> string \<Rightarrow> string list" where
  "split_from w [] = (if w = [] then [] else [w])"
| "split_from w (c # cs) =
     (if py_isspace c then (if w = [] then split_from [] cs else w # split_from [] cs)
      else split_from (w @ [c]) cs)"

definition py_split :: "string \<Rightarrow> string list" where
  "py_split s = split_from [] s"

text \<open>\<open>s.strip()\<close>\<close>

definition py_strip :: "string \<Rightarrow> string" where
  "py_strip s = rev (dropWhile py_isspace (rev (dropWhile py_isspace s)))"

text \<open>\<open>s.split('\n')[0]\<close>\<close>

definition first_line :: "string \<Rightarrow> string" where
  "first_line s = takeWhile (\<lambda>c. c \<noteq> CHR 0x0A) s"

text \<open>\<open>q in s\<close> for two strings: \<open>q\<close> occurs in \<open>s\<close> as a contiguous run.\<close>

fun py_in :: "string \<Rightarrow> string \<Rightarrow> bool" where
  "py_in q [] = (q = [])"
| "py_in q (c # cs) = (prefix q (c # cs) \<or> py_in q cs)"

text \<open>
  \<open>re.search(r'\{.*\}', text, re.DOTALL)\<close>: the match starts at the first opening brace
  and, the star being greedy and the dot matching newlines, ends at the last closing brace
  after it; there is no match when no closing brace follows the first opening one.
\<close>

definition json_match :: "string \<Rightarrow> string option" where
  "json_match s =
     (case dropWhile (\<lambda>c. c \<noteq> CHR ''{'') s of
        [] \<Rightarrow> None
      | b # t \<Rightarrow>
          (case dropWhile (\<lambda>c. c \<noteq> CHR ''}'') (rev t) of
             [] \<Rightarrow> None
           | r \<Rightarrow> Some (b # rev r)))"

section \<open>The library functions the program calls\<close>

text \<open>
  \<open>json.loads\<close> (with the exception it raises on a text that is not JSON), \<open>json.dumps\<close>, Python's \<open>str()\<close> of a value that
  is not a string (used by the f-strings), and the text of the human-readable report are
  not code of this repository: they are parameters of the model.
\<close>

record env =
  json_loads :: "string \<Rightarrow> error + json"
  json_dumps :: "json \<Rightarrow> string"
  py_repr :: "json \<Rightarrow> string"
  render_report :: "json \<Rightarrow> string"

definition py_str :: "env \<Rightarrow> json \<Rightarrow> string" where
  "py_str E v = (case v of JStr s \<Rightarrow> s | _ \<Rightarrow> py_repr E v)"

section \<open>The generators\<close>

text \<open>
  Each generator sends one prompt to the language model. The model is an external
  service: the outcome of the call, the reply text or the exception raised by
  \<open>llm.invoke\<close>, is an argument of the generator, and the text of the prompt is not
  modelled beyond the exceptions that building it can raise.
\<close>

subsection \<open>TopicGenerator\<close>

definition unparsed_topic :: "string \<Rightarrow> json" where
  "unparsed_topic text = JObj
     [(''title'', JStr (first_line text)),
      (''hook'', JStr ''Ready to transform your approach?''),
      (''angle'', JStr ''Expert insights and practical tips''),
      (''engagement_question'', JStr (''What'' @ [CHR 0x27] @ ''s your experience with this?''))]"

definition generate_topic :: "env \<Rightarrow> error + string \<Rightarrow> string \<Rightarrow> string \<Rightarrow> string \<Rightarrow> json" where
  "generate_topic E reply niche audience tone =
     (case reply of
        Inr text \<Rightarrow>
          (case json_match text of
             Some m \<Rightarrow>
               (case json_loads E m of
                  Inr topic_data \<Rightarrow> topic_data
                | Inl _ \<Rightarrow> unparsed_topic text)
           | None \<Rightarrow> unparsed_topic text)
      | Inl e \<Rightarrow> JObj
          [(''title'', JStr (''Latest '' @ py_title niche @ '' Insights'')),
           (''hook'', JStr ''Discover game-changing strategies''),
           (''angle'', JStr ''Expert perspective''),
           (''engagement_question'', JStr ''What are your thoughts?'')])"

subsection \<open>ContentGenerator\<close>

definition content_platform_limits :: "(string \<times> int) list" where
  "content_platform_limits =
     [(''instagram'', 2200), (''linkedin'', 3000), (''twitter'', 280), (''facebook'', 63206)]"

definition char_limit :: "string \<Rightarrow> int" where
  "char_limit platform =
     (case map_of content_platform_limits (py_lower platform) of Some n \<Rightarrow> n | None \<Rightarrow> 2200)"

text \<open>
  The \<open>try\<close> block reads four keys of the topic for the prompt, calls the model and
  measures the stripped reply. The handler formats three keys of the topic again, so it
  raises itself when the topic is not a dictionary.
\<close>

definition content_try :: "error + string \<Rightarrow> json \<Rightarrow> string \<Rightarrow> error + json" where
  "content_try reply topic_data platform =
     and_then (py_get topic_data ''title'' JNull) (\<lambda>_.
     and_then reply (\<lambda>text.
       let content = py_strip text in
       Inr (JObj
         [(''content'', JStr content),
          (''platform'', JStr platform),
          (''character_count'', JInt (int (length content))),
          (''within_limit'', JBool (int (length content) \<le> char_limit platform))])))"

definition content_fallback :: "env \<Rightarrow> json \<Rightarrow> string \<Rightarrow> error + json" where
  "content_fallback E topic_data platform =
     and_then (py_get topic_data ''hook'' JNull) (\<lambda>hook.
     and_then (py_get topic_data ''title'' JNull) (\<lambda>title.
     and_then (py_get topic_data ''engagement_question'' JNull) (\<lambda>question.
       Inr (JObj
         [(''content'', JStr (py_str E hook @ [CHR 0x0A, CHR 0x0A]
              @ ''Stay tuned for more insights on '' @ py_str E title @ ''!''
              @ [CHR 0x0A, CHR 0x0A] @ py_str E question)),
          (''platform'', JStr platform),
          (''character_count'', JInt 0),
          (''within_limit'', JBool True)]))))"

definition generate_content :: "env \<Rightarrow> error + string \<Rightarrow> json \<Rightarrow> string \<Rightarrow> error + json" where
  "generate_content E reply topic_data platform =
     (case content_try reply topic_data platform of
        Inr content_data \<Rightarrow> Inr content_data
      | Inl e \<Rightarrow> content_fallback E topic_data platform)"

subsection \<open>HashtagGenerator\<close>

definition hashtag_platform_limits :: "(string \<times> int) list" where
  "hashtag_platform_limits =
     [(''instagram'', 30), (''linkedin'', 10), (''twitter'', 5), (''facebook'', 8)]"

text \<open>\<open>self.platform_limits.get(platform.lower(), 30)\<close>\<close>

definition hashtag_limit :: "json \<Rightarrow> error + int" where
  "hashtag_limit platform =
     (case platform of
        JStr p \<Rightarrow> Inr (case map_of hashtag_platform_limits (py_lower p) of
                        Some n \<Rightarrow> n | None \<Rightarrow> 30)
      | _ \<Rightarrow> Inl (no_attribute platform ''lower''))"

definition basic_hashtags :: "string \<Rightarrow> string list" where
  "basic_hashtags title =
     map (\<lambda>word. CHR ''#'' # word) (filter (\<lambda>word. 3 < length word) (py_split (py_lower title)))"

definition generate_fallback_hashtags :: "env \<Rightarrow> json \<Rightarrow> json \<Rightarrow> error + json" where
  "generate_fallback_hashtags E platform topic_data =
     and_then (py_get topic_data ''title'' (JStr [])) (\<lambda>title.
       case title of
         JStr t \<Rightarrow>
           and_then (hashtag_limit platform) (\<lambda>limit.
             Inr (JObj
               [(''primary_hashtags'', JList (map JStr (py_take limit (basic_hashtags t)))),
                (''alternative_hashtags'',
                   JList [JStr (CHR ''#'' # py_str E platform), JStr ''#content'',
                          JStr ''#socialmedia'']),
                (''strategy'', JStr ''Using basic keyword-based hashtags''),
                (''reach_prediction'', JStr ''Moderate reach expected''),
                (''total_primary'', JInt (int (length (basic_hashtags t))))]))
       | _ \<Rightarrow> Inl (no_attribute title ''lower''))"

text \<open>
  The statements after the model's reply: extract and parse the JSON span, or take the
  fallback; then cut \<open>primary_hashtags\<close> to the limit and count it.
\<close>

definition limit_hashtags :: "int \<Rightarrow> json \<Rightarrow> error + json" where
  "limit_hashtags limit hashtag_data =
     and_then (py_getitem hashtag_data ''primary_hashtags'') (\<lambda>primary.
     and_then (py_slice_to primary limit) (\<lambda>kept.
     and_then (py_setitem hashtag_data ''primary_hashtags'' kept) (\<lambda>d1.
     and_then (py_len kept) (\<lambda>n.
       py_setitem d1 ''total_primary'' (JInt n)))))"

definition hashtags_try ::
  "env \<Rightarrow> error + string \<Rightarrow> json \<Rightarrow> json \<Rightarrow> string list option \<Rightarrow> error + json" where
  "hashtags_try E reply topic_data content_data seo_keywords =
     and_then (py_get content_data ''platform'' (JStr ''instagram'')) (\<lambda>platform.
     and_then (hashtag_limit platform) (\<lambda>limit.
     and_then (py_get topic_data ''title'' JNull) (\<lambda>_.
     and_then (py_get content_data ''content'' JNull) (\<lambda>content.
     and_then (py_slice_to content 200) (\<lambda>_.
     and_then reply (\<lambda>text.
     and_then
       (case json_match text of
          Some m \<Rightarrow>
            (case json_loads E m of
               Inr hashtag_data \<Rightarrow> Inr hashtag_data
             | Inl _ \<Rightarrow> generate_fallback_hashtags E platform topic_data)
        | None \<Rightarrow> generate_fallback_hashtags E platform topic_data)
       (limit_hashtags limit)))))))"

text \<open>
  The handler returns the fallback as it is. It reads the local variable \<open>platform\<close>,
  which is unbound when the first statement of the \<open>try\<close> block raised.
\<close>

definition generate_hashtags ::
  "env \<Rightarrow> error + string \<Rightarrow> json \<Rightarrow> json \<Rightarrow> string list option \<Rightarrow> error + json" where
  "generate_hashtags E reply topic_data content_data seo_keywords =
     (case hashtags_try E reply topic_data content_data seo_keywords of
        Inr hashtag_data \<Rightarrow> Inr hashtag_data
      | Inl e \<Rightarrow>
          (case py_get content_data ''platform'' (JStr ''instagram'') of
             Inr platform \<Rightarrow> generate_fallback_hashtags E platform topic_data
           | Inl _ \<Rightarrow>
               Inl (NameError (''cannot access local variable '' @ quoted ''platform''
                      @ '' where it is not associated with a value''))))"


section \<open>PostMemory\<close>

text \<open>
  One value of \<open>posts_memory\<close>. The six projected fields hold whatever the post record
  had under the key, so each is a JSON value; \<open>file_path\<close> is built by the code.
\<close>

record post_entry =
  e_platform :: json
  e_niche :: json
  e_title :: json
  e_content :: json
  e_hashtags :: json
  e_timestamp :: json
  e_file_path :: string

text \<open>
  \<open>posts_memory\<close> is a dictionary: an association list in insertion order, where
  assigning to a key that is present replaces the value in place. A key is hashed before
  it is stored; \<open>True\<close> and \<open>1\<close> are the same key.
\<close>

type_synonym store = "(json \<times> post_entry) list"

fun dict_key :: "json \<Rightarrow> error + json" where
  "dict_key (JList xs) = Inl (TypeError (''unhashable type: '' @ quoted ''list''))"
| "dict_key (JObj kvs) = Inl (TypeError (''unhashable type: '' @ quoted ''dict''))"
| "dict_key (JBool b) = Inr (JInt (if b then 1 else 0))"
| "dict_key v = Inr v"

fun py_truthy :: "json \<Rightarrow> bool" where
  "py_truthy JNull = False"
| "py_truthy (JBool b) = b"
| "py_truthy (JInt n) = (n \<noteq> 0)"
| "py_truthy (JStr s) = (s \<noteq> [])"
| "py_truthy (JList xs) = (xs \<noteq> [])"
| "py_truthy (JObj kvs) = (kvs \<noteq> [])"

text \<open>\<open>os.path.join(a, b)\<close> for a directory name \<open>a\<close> without a trailing slash.\<close>

definition path_join :: "string \<Rightarrow> string \<Rightarrow> string" where
  "path_join a b = (if prefix ''/'' b then b else a @ ''/'' @ b)"

definition posts_dir :: string where
  "posts_dir = ''posts''"

text \<open>
  The file system: whether the directory \<open>posts\<close> exists, and the files by path. A file
  holds its text, or the exception that opening or reading it raises.
\<close>

type_synonym files = "(string \<times> (error + string)) list"

text \<open>\<open>os.listdir(posts_dir)\<close>, in the order the system lists the names.\<close>

definition listdir :: "files \<Rightarrow> (string \<times> (error + string)) list" where
  "listdir fs = List.map_filter
     (\<lambda>(path, file).
        let name = drop (length posts_dir + 1) path in
        if prefix (posts_dir @ ''/'') path \<and> name \<noteq> [] \<and> CHR ''/'' \<notin> set name
        then Some (name, file) else None) fs"

text \<open>
  The body of the \<open>try\<close> block of \<open>load_posts\<close> for one file, in two steps. First
  what is evaluated before the index changes: the file is read and parsed, the post id
  tested, the entry built and the key hashed (\<open>None\<close>: the record has no post id, or a
  falsy one, and is passed over without an exception). Then the assignment.
\<close>

definition loaded_entry ::
  "env \<Rightarrow> string \<Rightarrow> error + string \<Rightarrow> error + (json \<times> post_entry) option" where
  "loaded_entry E filename file =
     (let file_path = path_join posts_dir filename in
      and_then file (\<lambda>text.
      and_then (json_loads E text) (\<lambda>post_data.
      and_then (py_get post_data ''post_id'' JNull) (\<lambda>post_id.
        if py_truthy post_id then
          and_then (py_get post_data ''parameters'' (JObj [])) (\<lambda>parameters.
          and_then (py_get parameters ''platform'' (JStr [])) (\<lambda>platform.
          and_then (py_get post_data ''parameters'' (JObj [])) (\<lambda>parameters.
          and_then (py_get parameters ''niche'' (JStr [])) (\<lambda>niche.
          and_then (py_get post_data ''topic'' (JObj [])) (\<lambda>topic.
          and_then (py_get topic ''title'' (JStr [])) (\<lambda>title.
          and_then (py_get post_data ''content'' (JObj [])) (\<lambda>content_data.
          and_then (py_get content_data ''content'' (JStr [])) (\<lambda>content.
          and_then (py_get post_data ''hashtags'' (JObj [])) (\<lambda>hashtag_data.
          and_then (py_get hashtag_data ''primary_hashtags'' (JList [])) (\<lambda>hashtags.
          and_then (py_get post_data ''generation_timestamp'' (JStr [])) (\<lambda>timestamp.
          and_then (dict_key post_id) (\<lambda>key.
            Inr (Some (key,
              \<lparr>e_platform = platform, e_niche = niche, e_title = title, e_content = content,
               e_hashtags = hashtags, e_timestamp = timestamp,
               e_file_path = file_path\<rparr>))))))))))))))
        else Inr None))))"

definition load_post :: "env \<Rightarrow> string \<Rightarrow> error + string \<Rightarrow> store \<Rightarrow> error + store" where
  "load_post E filename file m =
     and_then (loaded_entry E filename file) (\<lambda>r.
       case r of None \<Rightarrow> Inr m | Some (key, p) \<Rightarrow> Inr (AList.update key p m))"

text \<open>
  The loop of \<open>load_posts\<close> over the listing. It returns the index and the lines printed
  by the handler: an exception in one file prints a line and the loop goes on.
\<close>

fun load_files ::
  "env \<Rightarrow> (string \<times> (error + string)) list \<Rightarrow> store \<times> string list \<Rightarrow> store \<times> string list" where
  "load_files E [] (m, out) = (m, out)"
| "load_files E ((filename, file) # rest) (m, out) =
     (if suffix ''.json'' filename then
        (case load_post E filename file m of
           Inr m' \<Rightarrow> load_files E rest (m', out)
         | Inl e \<Rightarrow>
             load_files E rest
               (m, out @ [''Error loading post '' @ filename @ '': '' @ error_str e]))
      else load_files E rest (m, out))"

definition load_posts :: "env \<Rightarrow> bool \<Rightarrow> files \<Rightarrow> store \<Rightarrow> store \<times> string list" where
  "load_posts E posts_exists fs m =
     (if \<not> posts_exists then (m, []) else load_files E (listdir fs) (m, []))"

text \<open>\<open>add_post\<close>, in the same two steps.\<close>

definition added_entry :: "env \<Rightarrow> json \<Rightarrow> error + (json \<times> post_entry) option" where
  "added_entry E post_data =
     and_then (py_get post_data ''post_id'' JNull) (\<lambda>post_id.
       if py_truthy post_id then
         and_then (py_get post_data ''parameters'' (JObj [])) (\<lambda>parameters.
         and_then (py_get parameters ''platform'' (JStr [])) (\<lambda>platform.
         and_then (py_get post_data ''parameters'' (JObj [])) (\<lambda>parameters.
         and_then (py_get parameters ''niche'' (JStr [])) (\<lambda>niche.
         and_then (py_get post_data ''topic'' (JObj [])) (\<lambda>topic.
         and_then (py_get topic ''title'' (JStr [])) (\<lambda>title.
         and_then (py_get post_data ''content'' (JObj [])) (\<lambda>content_data.
         and_then (py_get content_data ''content'' (JStr [])) (\<lambda>content.
         and_then (py_get post_data ''hashtags'' (JObj [])) (\<lambda>hashtag_data.
         and_then (py_get hashtag_data ''primary_hashtags'' (JList [])) (\<lambda>hashtags.
         and_then (py_get post_data ''generation_timestamp'' (JStr [])) (\<lambda>timestamp.
         and_then (dict_key post_id) (\<lambda>key.
           Inr (Some (key,
             \<lparr>e_platform = platform, e_niche = niche, e_title = title, e_content = content,
              e_hashtags = hashtags, e_timestamp = timestamp,
              e_file_path = path_join posts_dir (py_str E post_id @ ''.json'')\<rparr>))))))))))))))
       else Inr None)"

definition add_post :: "env \<Rightarrow> json \<Rightarrow> store \<Rightarrow> error + store" where
  "add_post E post_data m =
     and_then (added_entry E post_data) (\<lambda>r.
       case r of None \<Rightarrow> Inr m | Some (key, p) \<Rightarrow> Inr (AList.update key p m))"

definition get_post :: "store \<Rightarrow> string \<Rightarrow> post_entry option" where
  "get_post m post_id = map_of m (JStr post_id)"

text \<open>\<open>self.posts_memory.values()\<close>\<close>

definition posts_values :: "store \<Rightarrow> post_entry list" where
  "posts_values m = map snd m"

subsection \<open>get_recent_posts\<close>

text \<open>
  \<open>sorted(values, key=timestamp, reverse=True)\<close> is stable: it sorts the reversed list
  in ascending order, stably, and reverses the result. Two strings compare
  lexicographically by code point. The comparison of other values (which raises for most
  pairs of types) is not modelled: the result is \<open>None\<close> when two or more entries are
  to be compared and some timestamp is not a string.
\<close>

definition timestamp_key :: "post_entry \<Rightarrow> string" where
  "timestamp_key p = (case e_timestamp p of JStr s \<Rightarrow> s | _ \<Rightarrow> [])"

definition is_str :: "json \<Rightarrow> bool" where
  "is_str v = (case v of JStr s \<Rightarrow> True | _ \<Rightarrow> False)"

definition sorted_reverse :: "post_entry list \<Rightarrow> post_entry list option" where
  "sorted_reverse ps =
     (if length ps \<le> 1 then Some ps
      else if list_all (\<lambda>p. is_str (e_timestamp p)) ps
      then Some (rev (sort_key timestamp_key (rev ps)))
      else None)"

definition get_recent_posts :: "store \<Rightarrow> int \<Rightarrow> post_entry list option" where
  "get_recent_posts m limit = map_option (py_take limit) (sorted_reverse (posts_values m))"

subsection \<open>search_posts\<close>

text \<open>\<open>for tag in v\<close>: a list gives its elements, a string its characters, a dictionary
  its keys; nothing else can be iterated.\<close>

fun py_iter :: "json \<Rightarrow> error + json list" where
  "py_iter (JList xs) = Inr xs"
| "py_iter (JStr s) = Inr (map (\<lambda>c. JStr [c]) s)"
| "py_iter (JObj kvs) = Inr (map (\<lambda>kv. JStr (fst kv)) kvs)"
| "py_iter v = Inl (TypeError (quoted (type_name v) @ '' object is not iterable''))"

text \<open>\<open>query in v.lower()\<close>\<close>

definition in_lower :: "string \<Rightarrow> json \<Rightarrow> error + bool" where
  "in_lower query v =
     (case v of JStr s \<Rightarrow> Inr (py_in query (py_lower s)) | _ \<Rightarrow> Inl (no_attribute v ''lower''))"

text \<open>\<open>any(query in tag.lower() for tag in tags)\<close> stops at the first tag that matches.\<close>

fun any_tag :: "string \<Rightarrow> json list \<Rightarrow> error + bool" where
  "any_tag query [] = Inr False"
| "any_tag query (tag # tags) =
     and_then (in_lower query tag) (\<lambda>b. if b then Inr True else any_tag query tags)"

text \<open>The condition of the \<open>if\<close>; \<open>or\<close> evaluates its right operand only when the left
  one is false.\<close>

definition post_matches :: "string \<Rightarrow> post_entry \<Rightarrow> error + bool" where
  "post_matches query p =
     and_then (in_lower query (e_title p)) (\<lambda>in_title.
       if in_title then Inr True
       else and_then (in_lower query (e_content p)) (\<lambda>in_content.
         if in_content then Inr True
         else and_then (py_iter (e_hashtags p)) (any_tag query)))"

fun search_loop :: "string \<Rightarrow> post_entry list \<Rightarrow> post_entry list \<Rightarrow> error + post_entry list" where
  "search_loop query [] matching_posts = Inr matching_posts"
| "search_loop query (p # ps) matching_posts =
     and_then (post_matches query p) (\<lambda>b.
       search_loop query ps (if b then matching_posts @ [p] else matching_posts))"

definition search_posts :: "store \<Rightarrow> string \<Rightarrow> error + post_entry list" where
  "search_posts m query = search_loop (py_lower query) (posts_values m) []"

section \<open>The orchestrator\<close>

subsection \<open>Clock\<close>

record datetime =
  dt_year :: nat
  dt_month :: nat
  dt_day :: nat
  dt_hour :: nat
  dt_minute :: nat
  dt_second :: nat
  dt_microsecond :: nat

definition digit_char :: "nat \<Rightarrow> char" where
  "digit_char d = ''0123456789'' ! (d mod 10)"

fun dec :: "nat \<Rightarrow> string" where
  "dec n = (if n < 10 then [digit_char n] else dec (n div 10) @ [digit_char n])"

declare dec.simps [simp del]

text \<open>A number in decimal, padded with zeros on the left to a width.\<close>

definition zpad :: "nat \<Rightarrow> nat \<Rightarrow> string" where
  "zpad w n = replicate (w - length (dec n)) (CHR ''0'') @ dec n"

text \<open>\<open>strftime('%Y%m%d_%H%M%S')\<close>, \<open>strftime('%y%m%d_%H%M')\<close> and \<open>isoformat()\<close>\<close>

definition strftime_id :: "datetime \<Rightarrow> string" where
  "strftime_id t = zpad 4 (dt_year t) @ zpad 2 (dt_month t) @ zpad 2 (dt_day t) @ ''_''
     @ zpad 2 (dt_hour t) @ zpad 2 (dt_minute t) @ zpad 2 (dt_second t)"

definition strftime_file :: "datetime \<Rightarrow> string" where
  "strftime_file t = zpad 2 (dt_year t mod 100) @ zpad 2 (dt_month t) @ zpad 2 (dt_day t) @ ''_''
     @ zpad 2 (dt_hour t) @ zpad 2 (dt_minute t)"

definition isoformat :: "datetime \<Rightarrow> string" where
  "isoformat t = zpad 4 (dt_year t) @ ''-'' @ zpad 2 (dt_month t) @ ''-'' @ zpad 2 (dt_day t)
     @ ''T'' @ zpad 2 (dt_hour t) @ '':'' @ zpad 2 (dt_minute t) @ '':'' @ zpad 2 (dt_second t)
     @ (if dt_microsecond t = 0 then [] else ''.'' @ zpad 6 (dt_microsecond t))"

subsection \<open>State and the outside world\<close>

text \<open>
  What one call of \<open>generate_complete_post\<close> meets outside the program: the outcome of
  the three calls of the model, the four readings of the clock, and the exceptions (if
  any) raised by creating the directory and by writing the two files.
\<close>

record run =
  topic_reply :: "error + string"
  content_reply :: "error + string"
  hashtag_reply :: "error + string"
  now_post_id :: datetime
  now_generated :: datetime
  now_saved :: datetime
  now_failed :: datetime
  makedirs_error :: "error option"
  json_write_error :: "error option"
  txt_write_error :: "error option"

text \<open>The state the chatbot works on: the file system, the index, the conversation.\<close>

record world =
  posts_exists :: bool
  files :: files
  posts_memory :: store
  conversation :: "(string \<times> string) list"

subsection \<open>_save_post\<close>

text \<open>
  \<open>os.makedirs\<close> and the three lookups stand before the \<open>try\<close>: their exception leaves
  the function. The \<open>try\<close> block writes the JSON file, then the report; an exception in
  it is printed and swallowed, and what was written before it stays. The result is the
  exception that left the function, if any, and the world after the call.
\<close>

definition save_post :: "env \<Rightarrow> run \<Rightarrow> json \<Rightarrow> world \<Rightarrow> error option \<times> world" where
  "save_post E R post_data W =
     (case makedirs_error R of
        Some e \<Rightarrow> (Some e, W)
      | None \<Rightarrow>
          (let W1 = W\<lparr>posts_exists := True\<rparr> in
           case and_then (py_get post_data ''parameters'' (JObj [])) (\<lambda>parameters.
                and_then (py_get parameters ''platform'' (JStr ''general'')) (\<lambda>platform.
                and_then (py_get post_data ''parameters'' (JObj [])) (\<lambda>parameters.
                and_then (py_get parameters ''niche'' (JStr ''content'')) (\<lambda>niche.
                  Inr (py_str E platform @ ''_'' @ py_str E niche @ ''_''
                         @ strftime_file (now_saved R)))))) of
             Inl e \<Rightarrow> (Some e, W1)
           | Inr base_filename \<Rightarrow>
               (let json_path = path_join posts_dir (base_filename @ ''.json'');
                    txt_path = path_join posts_dir (base_filename @ ''.txt'')
                in case json_write_error R of
                     Some e \<Rightarrow> (None, W1)
                   | None \<Rightarrow>
                       (let W2 = W1\<lparr>files :=
                              AList.update json_path (Inr (json_dumps E post_data)) (files W1)\<rparr>
                        in case txt_write_error R of
                             Some e \<Rightarrow> (None, W2)
                           | None \<Rightarrow>
                               (None, W2\<lparr>files :=
                                  AList.update txt_path (Inr (render_report E post_data))
                                    (files W2)\<rparr>)))))"

subsection \<open>generate_complete_post\<close>

definition error_result :: "run \<Rightarrow> error \<Rightarrow> json" where
  "error_result R e = JObj
     [(''error'', JStr (error_str e)),
      (''ready_to_post'', JBool False),
      (''generation_timestamp'', JStr (isoformat (now_failed R)))]"

definition seo_json :: "string list option \<Rightarrow> json" where
  "seo_json seo_keywords = (case seo_keywords of None \<Rightarrow> JNull | Some ks \<Rightarrow> JList (map JStr ks))"

text \<open>
  The \<open>try\<close> block, up to the post record: the three generators, each followed by the
  \<open>print\<close> that reads a key of its result. The result is the topic and the record.
\<close>

definition compile_post ::
  "env \<Rightarrow> run \<Rightarrow> string \<Rightarrow> string \<Rightarrow> string \<Rightarrow> string \<Rightarrow> string list option
     \<Rightarrow> error + json \<times> json" where
  "compile_post E R niche audience tone platform seo_keywords =
     (let topic_data = generate_topic E (topic_reply R) niche audience tone in
      and_then (py_get topic_data ''title'' (JStr ''Generated'')) (\<lambda>_.
      and_then (generate_content E (content_reply R) topic_data platform) (\<lambda>content_data.
      and_then (py_get content_data ''character_count'' (JInt 0)) (\<lambda>_.
      and_then (generate_hashtags E (hashtag_reply R) topic_data content_data seo_keywords)
        (\<lambda>hashtag_data.
      and_then (py_get hashtag_data ''total_primary'' (JInt 0)) (\<lambda>_.
        Inr (topic_data, JObj
          [(''post_id'', JStr (''ai_influencer_'' @ strftime_id (now_post_id R))),
           (''generation_timestamp'', JStr (isoformat (now_generated R))),
           (''parameters'', JObj
              [(''niche'', JStr niche),
               (''audience'', JStr audience),
               (''tone'', JStr tone),
               (''platform'', JStr platform),
               (''seo_keywords'', seo_json seo_keywords)]),
           (''topic'', topic_data),
           (''content'', content_data),
           (''hashtags'', hashtag_data),
           (''ready_to_post'', JBool True)])))))))"

text \<open>
  The rest of the \<open>try\<close> block: save the post, add it to the index, add a turn to the
  conversation. The result is the exception raised, or the world after the last step.
\<close>

definition store_post ::
  "env \<Rightarrow> run \<Rightarrow> string \<Rightarrow> string \<Rightarrow> json \<Rightarrow> json \<Rightarrow> world \<Rightarrow> error option \<times> world" where
  "store_post E R niche platform topic_data complete_post W =
     (case save_post E R complete_post W of
        (Some e, W1) \<Rightarrow> (Some e, W1)
      | (None, W1) \<Rightarrow>
          (case add_post E complete_post (posts_memory W1) of
             Inl e \<Rightarrow> (Some e, W1)
           | Inr m \<Rightarrow>
               (case py_get topic_data ''title'' (JStr []) of
                  Inl e \<Rightarrow> (Some e, W1\<lparr>posts_memory := m\<rparr>)
                | Inr title \<Rightarrow>
                    (None, W1\<lparr>posts_memory := m,
                       conversation := conversation W1 @
                         [(''Generate a '' @ platform @ '' post about '' @ niche,
                           ''Generated post: '' @ py_str E title)]\<rparr>))))"

definition generate_complete_post ::
  "env \<Rightarrow> run \<Rightarrow> string \<Rightarrow> string \<Rightarrow> string \<Rightarrow> string \<Rightarrow> string list option \<Rightarrow> world
     \<Rightarrow> json \<times> world" where
  "generate_complete_post E R niche audience tone platform seo_keywords W =
     (case compile_post E R niche audience tone platform seo_keywords of
        Inl e \<Rightarrow> (error_result R e, W)
      | Inr (topic_data, complete_post) \<Rightarrow>
          (case store_post E R niche platform topic_data complete_post W of
             (Some e, W') \<Rightarrow> (error_result R e, W')
           | (None, W') \<Rightarrow> (complete_post, W')))"

text \<open>\<open>complete_post.get("ready_to_post")\<close> as the caller tests it.\<close>

definition ready_to_post :: "json \<Rightarrow> bool" where
  "ready_to_post post = (case py_get post ''ready_to_post'' JNull of Inr v \<Rightarrow> py_truthy v | Inl _ \<Rightarrow> False)"


section \<open>Expected values and sample inputs\<close>

text \<open>
  The post that \<open>generate_complete_post("fitness", "gym-goers", "motivational",
  "twitter")\<close> compiles when all three calls of the model fail. Only the post id and
  the timestamp depend on the clock.
\<close>

definition fallback_topic :: json where
  "fallback_topic = JObj
     [(''title'', JStr ''Latest Fitness Insights''),
      (''hook'', JStr ''Discover game-changing strategies''),
      (''angle'', JStr ''Expert perspective''),
      (''engagement_question'', JStr ''What are your thoughts?'')]"

definition fallback_post :: "run \<Rightarrow> string list option \<Rightarrow> json" where
  "fallback_post R seo_keywords = JObj
     [(''post_id'', JStr (''ai_influencer_'' @ strftime_id (now_post_id R))),
      (''generation_timestamp'', JStr (isoformat (now_generated R))),
      (''parameters'', JObj
         [(''niche'', JStr ''fitness''),
          (''audience'', JStr ''gym-goers''),
          (''tone'', JStr ''motivational''),
          (''platform'', JStr ''twitter''),
          (''seo_keywords'', seo_json seo_keywords)]),
      (''topic'', fallback_topic),
      (''content'', JObj
         [(''content'', JStr (''Discover game-changing strategies'' @ [CHR 0x0A, CHR 0x0A]
              @ ''Stay tuned for more insights on Latest Fitness Insights!''
              @ [CHR 0x0A, CHR 0x0A] @ ''What are your thoughts?'')),
          (''platform'', JStr ''twitter''),
          (''character_count'', JInt 0),
          (''within_limit'', JBool True)]),
      (''hashtags'', JObj
         [(''primary_hashtags'', JList [JStr ''#latest'', JStr ''#fitness'', JStr ''#insights'']),
          (''alternative_hashtags'',
             JList [JStr ''#twitter'', JStr ''#content'', JStr ''#socialmedia'']),
          (''strategy'', JStr ''Using basic keyword-based hashtags''),
          (''reach_prediction'', JStr ''Moderate reach expected''),
          (''total_primary'', JInt 3)]),
      (''ready_to_post'', JBool True)]"

text \<open>\<open>d.get(k)\<close> on the key-value list of a dictionary.\<close>

definition dict_get :: "(string \<times> json) list \<Rightarrow> string \<Rightarrow> json" where
  "dict_get kvs k = (case map_of kvs k of Some v \<Rightarrow> v | None \<Rightarrow> JNull)"

text \<open>A clock reading on 5 November 2026, 09:30, and a run in which the model is down.\<close>

definition sample_time :: "nat \<Rightarrow> nat \<Rightarrow> datetime" where
  "sample_time s us = \<lparr>dt_year = 2026, dt_month = 11, dt_day = 5, dt_hour = 9, dt_minute = 30,
     dt_second = s, dt_microsecond = us\<rparr>"

definition llm_down :: run where
  "llm_down = \<lparr>topic_reply = Inl (LLMError ''service unavailable''),
     content_reply = Inl (LLMError ''service unavailable''),
     hashtag_reply = Inl (LLMError ''service unavailable''),
     now_post_id = sample_time 0 250000, now_generated = sample_time 0 250500,
     now_saved = sample_time 0 251000, now_failed = sample_time 2 0,
     makedirs_error = None, json_write_error = None, txt_write_error = None\<rparr>"

text \<open>The same run on a system that refuses to create the directory.\<close>

definition posts_denied :: run where
  "posts_denied = llm_down\<lparr>makedirs_error := Some (OSError ''[Errno 13] Permission denied'')\<rparr>"

definition empty_world :: world where
  "empty_world = \<lparr>posts_exists = False, files = [], posts_memory = [], conversation = []\<rparr>"

text \<open>Sample post files: the text of each and the value \<open>json.loads\<close> gives for it.\<close>

definition run_text :: string where
  \<open>run_text = ''{"post_id": "p1", "generation_timestamp": "T1", "topic": {"title": "Morning Run"}}''\<close>

definition run_json :: json where
  "run_json = JObj [(''post_id'', JStr ''p1''), (''generation_timestamp'', JStr ''T1''),
     (''topic'', JObj [(''title'', JStr ''Morning Run'')])]"

definition gym_text :: string where
  \<open>gym_text = ''{"post_id": "p2", "generation_timestamp": "T2", "hashtags": {"primary_hashtags": ["#gym"]}}''\<close>

definition gym_json :: json where
  "gym_json = JObj [(''post_id'', JStr ''p2''), (''generation_timestamp'', JStr ''T2''),
     (''hashtags'', JObj [(''primary_hashtags'', JList [JStr ''#gym''])])]"

definition null_content_text :: string where
  \<open>null_content_text = ''{"post_id": "p3", "topic": {"title": "Hello"}, "content": {"content": null}}''\<close>

definition null_content_json :: json where
  "null_content_json = JObj [(''post_id'', JStr ''p3''),
     (''topic'', JObj [(''title'', JStr ''Hello'')]),
     (''content'', JObj [(''content'', JNull)])]"

definition number_title_text :: string where
  \<open>number_title_text = ''{"post_id": "p4", "topic": {"title": 5}}''\<close>

definition number_title_json :: json where
  "number_title_json = JObj [(''post_id'', JStr ''p4''), (''topic'', JObj [(''title'', JInt 5)])]"

definition sample_texts :: "(string \<times> json) list" where
  "sample_texts =
     [(run_text, run_json), (gym_text, gym_json), (null_content_text, null_content_json),
      (number_title_text, number_title_json), (''[1, 2]'', JList [JInt 1, JInt 2]),
      (''{}'', JObj [])]"

text \<open>An environment whose JSON codec knows the sample texts and no other.\<close>

definition sample_env :: env where
  "sample_env =
     \<lparr>json_loads = (\<lambda>s. case map_of sample_texts s of
                          Some v \<Rightarrow> Inr v
                        | None \<Rightarrow> Inl (JSONDecodeError ''Expecting value'')),
      json_dumps = (\<lambda>v. case map_of (map (\<lambda>(s, w). (w, s)) sample_texts) v of
                          Some s \<Rightarrow> s | None \<Rightarrow> []),
      py_repr = (\<lambda>v. case v of JNull \<Rightarrow> ''None'' | _ \<Rightarrow> ''...''),
      render_report = (\<lambda>v. ''AI INFLUENCER SOCIAL MEDIA POST'')\<rparr>"

text \<open>
  The world after \<open>generate_complete_post("fitness", "gym-goers", "motivational",
  "twitter")\<close> has run on the empty world with the model down: two files written by
  \<open>_save_post\<close>, one entry added by \<open>add_post\<close>, one turn of conversation.
\<close>

definition first_post_world :: "env \<Rightarrow> world" where
  "first_post_world E =
     \<lparr>posts_exists = True,
      files =
        [(''posts/twitter_fitness_261105_0930.json'',
            Inr (json_dumps E (fallback_post llm_down None))),
         (''posts/twitter_fitness_261105_0930.txt'',
            Inr (render_report E (fallback_post llm_down None)))],
      posts_memory =
        [(JStr ''ai_influencer_20261105_093000'',
          \<lparr>e_platform = JStr ''twitter'', e_niche = JStr ''fitness'',
           e_title = JStr ''Latest Fitness Insights'',
           e_content = JStr (''Discover game-changing strategies'' @ [CHR 0x0A, CHR 0x0A]
              @ ''Stay tuned for more insights on Latest Fitness Insights!''
              @ [CHR 0x0A, CHR 0x0A] @ ''What are your thoughts?''),
           e_hashtags = JList [JStr ''#latest'', JStr ''#fitness'', JStr ''#insights''],
           e_timestamp = JStr ''2026-11-05T09:30:00.250500'',
           e_file_path = ''posts/ai_influencer_20261105_093000.json''\<rparr>)],
      conversation =
        [(''Generate a twitter post about fitness'',
          ''Generated post: Latest Fitness Insights'')]\<rparr>"

text \<open>A directory listing: two post files, a file that is not JSON, a text file, a JSON
  list, a JSON object without a post id.\<close>

definition sample_files :: files where
  "sample_files =
     [(''posts/a.json'', Inr run_text),
      (''posts/broken.json'', Inr ''not json''),
      (''posts/notes.txt'', Inr ''remember the gym''),
      (''posts/b.json'', Inr gym_text),
      (''posts/list.json'', Inr ''[1, 2]''),
      (''posts/empty.json'', Inr ''{}'')]"

section \<open>The specification's words\<close>

text \<open>
  What one file of the listing contributes to the index, and the line it makes the
  handler print: a file is a parseable post file when the \<open>try\<close> block of \<open>load_posts\<close>
  builds an entry from it.
\<close>

definition file_entry :: "env \<Rightarrow> string \<times> (error + string) \<Rightarrow> (json \<times> post_entry) option" where
  "file_entry E f =
     (if suffix ''.json'' (fst f) then
        (case loaded_entry E (fst f) (snd f) of Inr r \<Rightarrow> r | Inl e \<Rightarrow> None)
      else None)"

definition file_warning :: "env \<Rightarrow> string \<times> (error + string) \<Rightarrow> string option" where
  "file_warning E f =
     (if suffix ''.json'' (fst f) then
        (case loaded_entry E (fst f) (snd f) of
           Inr r \<Rightarrow> None
         | Inl e \<Rightarrow> Some (''Error loading post '' @ fst f @ '': '' @ error_str e))
      else None)"

definition set_entry :: "store \<Rightarrow> json \<times> post_entry \<Rightarrow> store" where
  "set_entry m kp = AList.update (fst kp) (snd kp) m"

text \<open>
  Search as the specification words it: the entries, in index order, for which the
  lower-cased query is a substring of the lower-cased title, of the lower-cased content
  text, or of at least one lower-cased hashtag. It reads an entry whose title and content
  are strings and whose hashtags are a list of strings.
\<close>

definition str_of :: "json \<Rightarrow> string" where
  "str_of v = (case v of JStr s \<Rightarrow> s | _ \<Rightarrow> [])"

definition tags_of :: "json \<Rightarrow> string list" where
  "tags_of v = (case v of JList ts \<Rightarrow> map str_of ts | _ \<Rightarrow> [])"

definition entry_typed :: "post_entry \<Rightarrow> bool" where
  "entry_typed p =
     (is_str (e_title p) \<and> is_str (e_content p)
      \<and> (case e_hashtags p of JList ts \<Rightarrow> list_all is_str ts | _ \<Rightarrow> False))"

definition matches_query :: "string \<Rightarrow> post_entry \<Rightarrow> bool" where
  "matches_query q p =
     (sublist q (py_lower (str_of (e_title p)))
      \<or> sublist q (py_lower (str_of (e_content p)))
      \<or> list_ex (\<lambda>tag. sublist q (py_lower tag)) (tags_of (e_hashtags p)))"

definition search_spec :: "store \<Rightarrow> string \<Rightarrow> post_entry list" where
  "search_spec m query = filter (matches_query (py_lower query)) (posts_values m)"


section \<open>Basic facts\<close>

lemmas str_defs = py_title_def is_letter_def upper_letters_def lower_letters_def
  upper_char_def lower_char_def py_lower_def py_split_def py_isspace_def py_strip_def

lemma and_then_Inr [simp]: "and_then (Inr x) f = f x"
  by (simp add: and_then_def)

lemma and_then_Inl [simp]: "and_then (Inl e) f = Inl e"
  by (simp add: and_then_def)

lemma and_then_eq_Inr: "and_then m f = Inr y \<longleftrightarrow> (\<exists>x. m = Inr x \<and> f x = Inr y)"
  by (cases m) simp_all

lemma title_fitness: "py_title ''fitness'' = ''Fitness''"
  by (simp add: str_defs)

lemma basic_hashtags_fitness:
  "basic_hashtags ''Latest Fitness Insights'' = [''#latest'', ''#fitness'', ''#insights'']"
  by (simp add: basic_hashtags_def str_defs)

lemma hashtag_limit_twitter: "hashtag_limit (JStr ''twitter'') = Inr 5"
  by (simp add: hashtag_limit_def hashtag_platform_limits_def str_defs)

lemma hashtag_limit_bounds: "hashtag_limit platform = Inr limit \<Longrightarrow> 5 \<le> limit \<and> limit \<le> 30"
  by (auto simp: hashtag_limit_def hashtag_platform_limits_def split: json.splits if_splits)

section \<open>The generators when the model fails\<close>

lemma generate_topic_failed:
  "generate_topic E (Inl e) niche audience tone = JObj
     [(''title'', JStr (''Latest '' @ py_title niche @ '' Insights'')),
      (''hook'', JStr ''Discover game-changing strategies''),
      (''angle'', JStr ''Expert perspective''),
      (''engagement_question'', JStr ''What are your thoughts?'')]"
  by (simp add: generate_topic_def)

lemma generate_content_failed:
  "generate_content E (Inl e) (JObj topic) platform = content_fallback E (JObj topic) platform"
  by (simp add: generate_content_def content_try_def)

lemma hashtags_try_call_failed:
  "\<exists>e'. hashtags_try E (Inl e) topic_data content_data seo_keywords = Inl e'"
  unfolding hashtags_try_def
  by (cases "py_get content_data ''platform'' (JStr ''instagram'')";
      cases "hashtag_limit (projr (py_get content_data ''platform'' (JStr ''instagram'')))";
      cases "py_get topic_data ''title'' JNull";
      cases "py_get content_data ''content'' JNull";
      cases "py_slice_to (projr (py_get content_data ''content'' JNull)) 200") simp_all

lemma generate_hashtags_failed:
  "generate_hashtags E (Inl e) topic_data (JObj content) seo_keywords =
     generate_fallback_hashtags E
       (case map_of content ''platform'' of Some v \<Rightarrow> v | None \<Rightarrow> JStr ''instagram'') topic_data"
proof -
  obtain e' where "hashtags_try E (Inl e) topic_data (JObj content) seo_keywords = Inl e'"
    using hashtags_try_call_failed by blast
  then show ?thesis
    by (simp add: generate_hashtags_def)
qed


section \<open>Hashtag counts\<close>

text \<open>
  The two statements that close the \<open>try\<close> block of \<open>generate_hashtags\<close> establish the
  count: whenever they complete, \<open>total_primary\<close> is the length of \<open>primary_hashtags\<close>
  and at most the limit. This covers the parsed reply and the fallback taken inside the
  \<open>try\<close> block.
\<close>

lemma map_of_update_same: "map_of (AList.update k v kvs) k = Some v"
  by (simp add: update_conv')

lemma map_of_update_other: "k' \<noteq> k \<Longrightarrow> map_of (AList.update k v kvs) k' = map_of kvs k'"
  by (simp add: update_conv')

lemma py_slice_to_len:
  assumes "py_slice_to v limit = Inr kept" and "0 \<le> limit"
  shows "\<exists>n. py_len kept = Inr n \<and> n \<le> limit"
  using assms by (cases v) (auto simp: py_take_def)

lemma limit_hashtags_counts:
  assumes "limit_hashtags limit hashtag_data = Inr d" and "0 \<le> limit"
  shows "\<exists>kept n. py_getitem d ''primary_hashtags'' = Inr kept \<and> py_len kept = Inr n
           \<and> py_getitem d ''total_primary'' = Inr (JInt n) \<and> n \<le> limit"
proof -
  from assms(1) obtain primary kept d1 n where
    p: "py_getitem hashtag_data ''primary_hashtags'' = Inr primary" and
    c: "py_slice_to primary limit = Inr kept" and
    d1: "py_setitem hashtag_data ''primary_hashtags'' kept = Inr d1" and
    n: "py_len kept = Inr n" and
    d: "py_setitem d1 ''total_primary'' (JInt n) = Inr d"
    unfolding limit_hashtags_def and_then_eq_Inr by blast
  from d1 obtain kvs where kvs: "hashtag_data = JObj kvs"
    by (cases hashtag_data) simp_all
  with d1 have d1': "d1 = JObj (AList.update ''primary_hashtags'' kept kvs)"
    by simp
  with d have d': "d = JObj (AList.update ''total_primary'' (JInt n)
                      (AList.update ''primary_hashtags'' kept kvs))"
    by simp
  have "py_getitem d ''primary_hashtags'' = Inr kept"
    by (simp add: d' map_of_update_other map_of_update_same)
  moreover have "py_getitem d ''total_primary'' = Inr (JInt n)"
    by (simp add: d' map_of_update_same)
  moreover from py_slice_to_len [OF c assms(2)] n have "n \<le> limit"
    by simp
  ultimately show ?thesis
    using n by blast
qed

lemma hashtags_try_counts:
  assumes "hashtags_try E reply topic_data content_data seo_keywords = Inr d"
  shows "\<exists>platform limit kept n.
           py_get content_data ''platform'' (JStr ''instagram'') = Inr platform
         \<and> hashtag_limit platform = Inr limit
         \<and> py_getitem d ''primary_hashtags'' = Inr kept \<and> py_len kept = Inr n
         \<and> py_getitem d ''total_primary'' = Inr (JInt n) \<and> n \<le> limit"
proof -
  from assms obtain platform limit hashtag_data where
    pl: "py_get content_data ''platform'' (JStr ''instagram'') = Inr platform" and
    li: "hashtag_limit platform = Inr limit" and
    lh: "limit_hashtags limit hashtag_data = Inr d"
    unfolding hashtags_try_def and_then_eq_Inr by blast
  from hashtag_limit_bounds [OF li] have "0 \<le> limit"
    by simp
  from limit_hashtags_counts [OF lh this] pl li show ?thesis
    by blast
qed

text \<open>
  C1. Claim: on every path (parsed reply, fallback after a parse failure, fallback after a
  failed call) the returned hashtag set has \<open>total_primary\<close> equal to the length of
  \<open>primary_hashtags\<close> and at most the platform's maximum. The code at a failed call, for
  twitter (maximum 5) and a title of eight words longer than three characters: the
  handler returns the fallback as built, with five primary hashtags and
  \<open>total_primary = 8\<close>.
\<close>

theorem failed_call_total_primary_not_recounted:
  "generate_hashtags E (Inl e)
     (JObj [(''title'', JStr ''Seven Proven Morning Habits That Boost Daily Energy'')])
     (JObj [(''content'', JStr text), (''platform'', JStr ''twitter'')]) seo_keywords =
   Inr (JObj
     [(''primary_hashtags'',
         JList [JStr ''#seven'', JStr ''#proven'', JStr ''#morning'', JStr ''#habits'',
                JStr ''#that'']),
      (''alternative_hashtags'', JList [JStr ''#twitter'', JStr ''#content'', JStr ''#socialmedia'']),
      (''strategy'', JStr ''Using basic keyword-based hashtags''),
      (''reach_prediction'', JStr ''Moderate reach expected''),
      (''total_primary'', JInt 8)])"
proof -
  have "basic_hashtags ''Seven Proven Morning Habits That Boost Daily Energy'' =
          [''#seven'', ''#proven'', ''#morning'', ''#habits'', ''#that'', ''#boost'', ''#daily'',
           ''#energy'']"
    by (simp add: basic_hashtags_def str_defs)
  then show ?thesis
    by (simp add: generate_hashtags_failed generate_fallback_hashtags_def hashtag_limit_twitter
        py_take_def py_str_def)
qed

section \<open>The post compiled when the model is down\<close>

lemma compile_post_llm_down:
  assumes "topic_reply R = Inl e1" and "content_reply R = Inl e2" and "hashtag_reply R = Inl e3"
  shows "compile_post E R ''fitness'' ''gym-goers'' ''motivational'' ''twitter'' seo_keywords =
           Inr (fallback_topic, fallback_post R seo_keywords)"
  using assms
  by (simp add: compile_post_def generate_topic_failed generate_content_failed
      generate_hashtags_failed content_fallback_def py_str_def title_fitness
      generate_fallback_hashtags_def basic_hashtags_fitness hashtag_limit_twitter py_take_def
      fallback_post_def fallback_topic_def Let_def)

lemma store_fallback_post:
  assumes "makedirs_error R = None"
  shows "fst (store_post E R niche platform fallback_topic (fallback_post R seo_keywords) W) = None"
  using assms
  by (simp add: store_post_def save_post_def add_post_def added_entry_def fallback_post_def
      fallback_topic_def Let_def split: option.splits prod.splits sum.splits)

text \<open>
  C2. When every call of the model fails (and the directory \<open>posts\<close> can be created),
  \<open>generate_complete_post("fitness", "gym-goers", "motivational", "twitter")\<close> returns the
  post compiled from the three fallbacks, whatever the state, the SEO keywords and the
  exceptions raised by the model: \<open>ready_to_post\<close> is true, the title is
  \<open>Latest Fitness Insights\<close>, \<open>total_primary\<close> is 3, which is at most 5, and the result
  has no \<open>error\<close> key (the orchestrator's handler did not run).
\<close>

theorem llm_down_post:
  assumes "topic_reply R = Inl e1" and "content_reply R = Inl e2" and "hashtag_reply R = Inl e3"
    and "makedirs_error R = None"
  shows "fst (generate_complete_post E R ''fitness'' ''gym-goers'' ''motivational'' ''twitter''
              seo_keywords W) = fallback_post R seo_keywords
       \<and> ready_to_post (fallback_post R seo_keywords)
       \<and> and_then (py_getitem (fallback_post R seo_keywords) ''topic'') (\<lambda>t. py_getitem t ''title'')
           = Inr (JStr ''Latest Fitness Insights'')
       \<and> and_then (py_getitem (fallback_post R seo_keywords) ''hashtags'')
           (\<lambda>h. py_getitem h ''total_primary'') = Inr (JInt 3)
       \<and> (3 :: int) \<le> 5
       \<and> py_getitem (fallback_post R seo_keywords) ''error'' = Inl (KeyError (quoted ''error''))"
proof -
  have "fst (store_post E R ''fitness'' ''twitter'' fallback_topic (fallback_post R seo_keywords) W)
          = None"
    using assms(4) by (rule store_fallback_post)
  then have "fst (generate_complete_post E R ''fitness'' ''gym-goers'' ''motivational''
                ''twitter'' seo_keywords W) = fallback_post R seo_keywords"
    using compile_post_llm_down [OF assms(1-3)]
    by (auto simp add: generate_complete_post_def split: prod.splits option.splits)
  then show ?thesis
    by (simp add: fallback_post_def fallback_topic_def ready_to_post_def)
qed

theorem llm_down_post_witness:
  "topic_reply llm_down = Inl (LLMError ''service unavailable'')
   \<and> content_reply llm_down = Inl (LLMError ''service unavailable'')
   \<and> hashtag_reply llm_down = Inl (LLMError ''service unavailable'')
   \<and> makedirs_error llm_down = None
   \<and> fst (generate_complete_post sample_env llm_down ''fitness'' ''gym-goers'' ''motivational''
            ''twitter'' None empty_world) = fallback_post llm_down None
   \<and> ready_to_post (fallback_post llm_down None)"
  using llm_down_post [of llm_down "LLMError ''service unavailable''"
      "LLMError ''service unavailable''" "LLMError ''service unavailable''" sample_env None
      empty_world]
  by (simp add: llm_down_def)

section \<open>Content measurement\<close>

lemma char_limit_table:
  "char_limit platform =
     (if py_lower platform = ''instagram'' then 2200
      else if py_lower platform = ''linkedin'' then 3000
      else if py_lower platform = ''twitter'' then 280
      else if py_lower platform = ''facebook'' then 63206
      else 2200)"
  by (simp add: char_limit_def content_platform_limits_def)

text \<open>
  C3. For every platform and every reply of the model, the content body returned by the
  \<open>try\<close> block holds the stripped reply, its exact length as \<open>character_count\<close>, and
  \<open>within_limit\<close> true exactly when that length is at most the platform's budget
  (instagram 2200, linkedin 3000, twitter 280, facebook 63206, any other platform 2200,
  the platform's name compared in lower case). When the call fails, the content is the
  hook, the line \<open>Stay tuned for more insights on <title>!\<close> and the engagement
  question, separated by blank lines, with \<open>character_count\<close> 0 and \<open>within_limit\<close>
  true.
\<close>

theorem content_body_measured:
  "generate_content E (Inr text) (JObj topic) platform =
     Inr (JObj
       [(''content'', JStr (py_strip text)),
        (''platform'', JStr platform),
        (''character_count'', JInt (int (length (py_strip text)))),
        (''within_limit'', JBool (int (length (py_strip text)) \<le> char_limit platform))])
   \<and> generate_content E (Inl e) (JObj topic) platform =
     Inr (JObj
       [(''content'', JStr (py_str E (dict_get topic ''hook'') @ [CHR 0x0A, CHR 0x0A]
            @ ''Stay tuned for more insights on '' @ py_str E (dict_get topic ''title'') @ ''!''
            @ [CHR 0x0A, CHR 0x0A] @ py_str E (dict_get topic ''engagement_question''))),
        (''platform'', JStr platform),
        (''character_count'', JInt 0),
        (''within_limit'', JBool True)])
   \<and> char_limit platform =
       (if py_lower platform = ''instagram'' then 2200
        else if py_lower platform = ''linkedin'' then 3000
        else if py_lower platform = ''twitter'' then 280
        else if py_lower platform = ''facebook'' then 63206
        else 2200)"
  by (simp add: generate_content_def content_try_def content_fallback_def dict_get_def Let_def
      char_limit_table)

theorem content_body_measured_witness:
  "generate_content sample_env (Inr ''  Lift heavy, rest well.  '') fallback_topic ''Twitter'' =
     Inr (JObj
       [(''content'', JStr ''Lift heavy, rest well.''),
        (''platform'', JStr ''Twitter''),
        (''character_count'', JInt 22),
        (''within_limit'', JBool True)])
   \<and> char_limit ''Twitter'' = 280"
  using content_body_measured [of sample_env "''  Lift heavy, rest well.  ''"
      "[(''title'', JStr ''Latest Fitness Insights''),
        (''hook'', JStr ''Discover game-changing strategies''),
        (''angle'', JStr ''Expert perspective''),
        (''engagement_question'', JStr ''What are your thoughts?'')]" "''Twitter''"]
  by (simp add: fallback_topic_def str_defs)


section \<open>The orchestrator's handler\<close>

lemma compile_post_ready:
  assumes "compile_post E R niche audience tone platform seo_keywords = Inr (topic_data, post)"
  shows "ready_to_post post"
  using assms
  by (auto simp: compile_post_def Let_def and_then_eq_Inr ready_to_post_def)

lemma error_result_not_ready: "\<not> ready_to_post (error_result R e)"
  by (simp add: error_result_def ready_to_post_def)

text \<open>
  C7. \<open>generate_complete_post\<close> always returns a value. Either the \<open>try\<close> block ran to
  its end, and the result is the compiled post, with \<open>ready_to_post\<close> true; or a step
  raised an exception \<open>e\<close> (while compiling the post, or while saving and indexing it),
  and the result is the error record holding \<open>str(e)\<close>, \<open>ready_to_post\<close> false and the
  time of the failure. So \<open>ready_to_post\<close> is false exactly when the handler ran.
\<close>

theorem orchestrator_error_branch:
  assumes "generate_complete_post E R niche audience tone platform seo_keywords W = (post, W')"
  shows "(ready_to_post post
          \<and> (\<exists>topic_data. compile_post E R niche audience tone platform seo_keywords
                              = Inr (topic_data, post)
               \<and> store_post E R niche platform topic_data post W = (None, W')))
       \<or> (\<not> ready_to_post post
          \<and> (\<exists>e. post = JObj [(''error'', JStr (error_str e)),
                              (''ready_to_post'', JBool False),
                              (''generation_timestamp'', JStr (isoformat (now_failed R)))]
               \<and> (compile_post E R niche audience tone platform seo_keywords = Inl e \<and> W' = W
                  \<or> (\<exists>topic_data complete_post.
                        compile_post E R niche audience tone platform seo_keywords
                          = Inr (topic_data, complete_post)
                      \<and> store_post E R niche platform topic_data complete_post W
                          = (Some e, W')))))"
proof (cases "compile_post E R niche audience tone platform seo_keywords")
  case (Inl e)
  with assms have "post = error_result R e" and "W' = W"
    by (simp_all add: generate_complete_post_def)
  with Inl show ?thesis
    using error_result_not_ready [of R e] by (auto simp: error_result_def)
next
  case (Inr r)
  obtain topic_data complete_post where r: "r = (topic_data, complete_post)"
    by (cases r)
  obtain raised W1 where
    s: "store_post E R niche platform topic_data complete_post W = (raised, W1)"
    by (cases "store_post E R niche platform topic_data complete_post W")
  show ?thesis
  proof (cases raised)
    case None
    with assms Inr r s have "post = complete_post" and "W' = W1"
      by (simp_all add: generate_complete_post_def)
    with Inr r s None
      compile_post_ready [of E R niche audience tone platform seo_keywords topic_data complete_post]
    show ?thesis by auto
  next
    case (Some e)
    with assms Inr r s have "post = error_result R e" and "W' = W1"
      by (simp_all add: generate_complete_post_def)
    with Inr r s Some show ?thesis
      using error_result_not_ready [of R e] by (auto simp: error_result_def)
  qed
qed

subsection \<open>Sample runs\<close>

lemma dec_samples:
  "dec 0 = ''0''" "dec 2 = ''2''" "dec 5 = ''5''" "dec 9 = ''9''" "dec 11 = ''11''"
  "dec 26 = ''26''" "dec 30 = ''30''" "dec 2026 = ''2026''" "dec 250500 = ''250500''"
  by (simp_all add: dec.simps [of 0] dec.simps [of 2] dec.simps [of 5] dec.simps [of 9]
      dec.simps [of 11] dec.simps [of 26] dec.simps [of 30] dec.simps [of 2026] dec.simps [of 202]
      dec.simps [of 20] dec.simps [of 250500] dec.simps [of 25050] dec.simps [of 2505]
      dec.simps [of 250] dec.simps [of 25] dec.simps [of 3] dec.simps [of "Suc 0"]
      digit_char_def)

lemma sample_clock:
  "strftime_id (sample_time 0 us) = ''20261105_093000''"
  "strftime_file (sample_time s us) = ''261105_0930''"
  "isoformat (sample_time 0 250500) = ''2026-11-05T09:30:00.250500''"
  "isoformat (sample_time 2 0) = ''2026-11-05T09:30:02''"
  by (simp_all add: strftime_id_def strftime_file_def isoformat_def sample_time_def zpad_def
      dec_samples)

lemma llm_down_fields:
  "topic_reply llm_down = Inl (LLMError ''service unavailable'')"
  "content_reply llm_down = Inl (LLMError ''service unavailable'')"
  "hashtag_reply llm_down = Inl (LLMError ''service unavailable'')"
  "now_post_id llm_down = sample_time 0 250000"
  "now_generated llm_down = sample_time 0 250500"
  "now_saved llm_down = sample_time 0 251000"
  "now_failed llm_down = sample_time 2 0"
  "makedirs_error llm_down = None"
  "json_write_error llm_down = None"
  "txt_write_error llm_down = None"
  by (simp_all add: llm_down_def)

lemma posts_denied_fields:
  "topic_reply posts_denied = Inl (LLMError ''service unavailable'')"
  "content_reply posts_denied = Inl (LLMError ''service unavailable'')"
  "hashtag_reply posts_denied = Inl (LLMError ''service unavailable'')"
  "now_failed posts_denied = sample_time 2 0"
  "makedirs_error posts_denied = Some (OSError ''[Errno 13] Permission denied'')"
  by (simp_all add: posts_denied_def llm_down_def)

lemma makedirs_denied:
  "generate_complete_post sample_env posts_denied
     ''fitness'' ''gym-goers'' ''motivational'' ''twitter'' None empty_world =
   (JObj [(''error'', JStr ''[Errno 13] Permission denied''),
          (''ready_to_post'', JBool False),
          (''generation_timestamp'', JStr ''2026-11-05T09:30:02'')], empty_world)"
proof -
  have "compile_post sample_env posts_denied
          ''fitness'' ''gym-goers'' ''motivational'' ''twitter'' None
        = Inr (fallback_topic, fallback_post posts_denied None)"
    by (rule compile_post_llm_down) (simp_all add: posts_denied_fields)
  then show ?thesis
    by (simp add: generate_complete_post_def store_post_def save_post_def error_result_def
        posts_denied_fields sample_clock)
qed

theorem orchestrator_error_branch_witness:
  "generate_complete_post sample_env posts_denied
     ''fitness'' ''gym-goers'' ''motivational'' ''twitter'' None empty_world =
   (JObj [(''error'', JStr ''[Errno 13] Permission denied''),
          (''ready_to_post'', JBool False),
          (''generation_timestamp'', JStr ''2026-11-05T09:30:02'')], empty_world)
   \<and> \<not> ready_to_post (JObj [(''error'', JStr ''[Errno 13] Permission denied''),
          (''ready_to_post'', JBool False),
          (''generation_timestamp'', JStr ''2026-11-05T09:30:02'')])"
  using orchestrator_error_branch [OF makedirs_denied] makedirs_denied
  by (simp add: ready_to_post_def)

section \<open>The path recorded in the index\<close>

lemma first_post_run:
  "generate_complete_post E llm_down ''fitness'' ''gym-goers'' ''motivational'' ''twitter'' None
     empty_world = (fallback_post llm_down None, first_post_world E)"
proof -
  have "compile_post E llm_down ''fitness'' ''gym-goers'' ''motivational'' ''twitter'' None
        = Inr (fallback_topic, fallback_post llm_down None)"
    by (rule compile_post_llm_down) (simp_all add: llm_down_fields)
  then show ?thesis
    by (simp add: generate_complete_post_def store_post_def save_post_def add_post_def
        added_entry_def llm_down_fields sample_clock fallback_post_def fallback_topic_def
        path_join_def posts_dir_def empty_world_def py_str_def Let_def first_post_world_def)
qed

text \<open>
  C4. Claim: once a post is generated and saved (\<open>ready_to_post\<close> true), the file path
  stored in its index entry names a file on disk that holds the post's record. The code,
  on an empty directory with both files written without error: \<open>_save_post\<close> writes
  \<open>posts/twitter_fitness_261105_0930.json\<close>, \<open>add_post\<close> records
  \<open>posts/ai_influencer_20261105_093000.json\<close>, and no file of that name exists.
\<close>

theorem index_entry_names_no_file:
  "generate_complete_post E llm_down ''fitness'' ''gym-goers'' ''motivational'' ''twitter'' None
     empty_world = (fallback_post llm_down None, first_post_world E)
   \<and> ready_to_post (fallback_post llm_down None)
   \<and> map_option e_file_path
       (get_post (posts_memory (first_post_world E)) ''ai_influencer_20261105_093000'')
       = Some ''posts/ai_influencer_20261105_093000.json''
   \<and> map_of (files (first_post_world E)) ''posts/ai_influencer_20261105_093000.json'' = None
   \<and> map_of (files (first_post_world E)) ''posts/twitter_fitness_261105_0930.json''
       = Some (Inr (json_dumps E (fallback_post llm_down None)))"
  by (simp add: first_post_run)
     (simp add: first_post_world_def get_post_def fallback_post_def ready_to_post_def)


section \<open>Loading the index\<close>

lemma load_files_fold:
  "load_files E fs (m, out) =
     (foldl set_entry m (List.map_filter (file_entry E) fs),
      out @ List.map_filter (file_warning E) fs)"
proof (induction fs arbitrary: m out)
  case Nil
  then show ?case by simp
next
  case (Cons f fs)
  obtain filename body where f: "f = (filename, body)"
    by (cases f)
  show ?case
  proof (cases "suffix ''.json'' filename")
    case False
    then show ?thesis
      by (simp add: f Cons.IH file_entry_def file_warning_def)
  next
    case True
    show ?thesis
    proof (cases "loaded_entry E filename body")
      case (Inl e)
      with True show ?thesis
        by (simp add: f Cons.IH file_entry_def file_warning_def load_post_def)
    next
      case (Inr r)
      with True show ?thesis
        by (cases r) (auto simp add: f Cons.IH file_entry_def file_warning_def load_post_def
            set_entry_def)
    qed
  qed
qed

lemma set_entry_keys: "fst ` set (set_entry m kp) = insert (fst kp) (fst ` set m)"
  by (simp add: set_entry_def update_conv' flip: dom_map_of_conv_image_fst)

lemma foldl_set_entry_keys:
  "fst ` set (foldl set_entry m kps) = fst ` set m \<union> fst ` set kps"
proof (induction kps arbitrary: m)
  case Nil
  then show ?case by simp
next
  case (Cons kp kps)
  with set_entry_keys [of m kp] show ?case by auto
qed

lemma set_entry_new_key:
  assumes "fst kp \<notin> fst ` set m"
  shows "set_entry m kp = m @ [kp]"
  using assms by (induction m) (auto simp: set_entry_def)

lemma foldl_set_entry_distinct:
  assumes "distinct (map fst kps)" and "fst ` set m \<inter> fst ` set kps = {}"
  shows "foldl set_entry m kps = m @ kps"
  using assms
proof (induction kps arbitrary: m)
  case Nil
  then show ?case by simp
next
  case (Cons kp kps)
  from Cons.prems have new: "fst kp \<notin> fst ` set m"
    by auto
  then have step: "set_entry m kp = m @ [kp]"
    by (rule set_entry_new_key)
  from Cons.prems have "distinct (map fst kps)"
    and "fst ` set (m @ [kp]) \<inter> fst ` set kps = {}"
    by auto
  then have "foldl set_entry (m @ [kp]) kps = (m @ [kp]) @ kps"
    by (rule Cons.IH)
  with step show ?case by simp
qed

lemma in_map_filter:
  assumes "x \<in> set xs" and "f x = Some y"
  shows "y \<in> set (List.map_filter f xs)"
  using assms by (induction xs) (auto split: option.splits)

lemma unparsed_file:
  assumes "json_loads E text = Inl e"
  shows "loaded_entry E filename (Inr text) = Inl e"
  using assms by (simp add: loaded_entry_def)

text \<open>
  C8. For every directory, \<open>load_posts\<close> returns (it never raises): the index it builds
  is the result of storing, in listing order, the entry of each \<open>.json\<close> file from
  which the \<open>try\<close> block builds one, and it prints one line for each \<open>.json\<close> file in
  which the block raised. So a file that fails to parse adds its line and nothing else,
  every file with an entry has its post id in the index, and when the post ids are
  distinct the index loaded into an empty store is exactly the list of these entries.
\<close>

theorem load_posts_skips_failures:
  "load_posts E True fs m =
     (foldl set_entry m (List.map_filter (file_entry E) (listdir fs)),
      List.map_filter (file_warning E) (listdir fs))
   \<and> (\<forall>f \<in> set (listdir fs). \<forall>kp. file_entry E f = Some kp
         \<longrightarrow> fst kp \<in> fst ` set (fst (load_posts E True fs m)))
   \<and> (distinct (map fst (List.map_filter (file_entry E) (listdir fs)))
         \<longrightarrow> fst (load_posts E True fs []) = List.map_filter (file_entry E) (listdir fs))
   \<and> (\<forall>filename text e. suffix ''.json'' filename \<and> json_loads E text = Inl e
         \<longrightarrow> file_entry E (filename, Inr text) = None
           \<and> file_warning E (filename, Inr text)
               = Some (''Error loading post '' @ filename @ '': '' @ error_str e))"
proof -
  have load: "load_posts E True fs m =
     (foldl set_entry m (List.map_filter (file_entry E) (listdir fs)),
      List.map_filter (file_warning E) (listdir fs))" for m
    by (simp add: load_posts_def load_files_fold)
  have "fst kp \<in> fst ` set (fst (load_posts E True fs m))"
    if "f \<in> set (listdir fs)" and "file_entry E f = Some kp" for f kp
  proof -
    from that have "kp \<in> set (List.map_filter (file_entry E) (listdir fs))"
      by (rule in_map_filter)
    then show ?thesis
      by (simp add: load foldl_set_entry_keys)
  qed
  moreover have "fst (load_posts E True fs []) = List.map_filter (file_entry E) (listdir fs)"
    if "distinct (map fst (List.map_filter (file_entry E) (listdir fs)))"
    using foldl_set_entry_distinct [OF that, of "[]"] by (simp add: load)
  moreover have "file_entry E (filename, Inr body) = None
      \<and> file_warning E (filename, Inr body)
          = Some (''Error loading post '' @ filename @ '': '' @ error_str e)"
    if "suffix ''.json'' filename" and "json_loads E body = Inl e" for filename body e
    using that by (simp add: file_entry_def file_warning_def unparsed_file)
  ultimately show ?thesis
    using load by blast
qed

end
